theory Spec2Isabelle
  imports Main
begin

section \<open>Values exchanged with the server\<close>

text \<open>
  \<^verbatim>\<open>response.json()\<close> gives the client a Python value built from \<^verbatim>\<open>None\<close>, booleans,
  numbers, strings, lists and dictionaries. Numbers are integers here (Python's are
  unbounded; a number with a fraction is not modelled); a dictionary is the list of
  its items in order. Strings are character lists, read as ASCII text.
\<close>

datatype json =
    JNull
  | JBool bool
  | JInt int
  | JStr string
  | JArr "json list"
  | JObj "(string \<times> json) list"

text \<open>Python's truth test, as \<^verbatim>\<open>if val:\<close> and \<^verbatim>\<open>if not agent_data:\<close> apply it.\<close>

fun truthy :: "json \<Rightarrow> bool" where
  "truthy JNull = False"
| "truthy (JBool b) = b"
| "truthy (JInt i) = (i \<noteq> 0)"
| "truthy (JStr s) = (s \<noteq> [])"
| "truthy (JArr xs) = (xs \<noteq> [])"
| "truthy (JObj kvs) = (kvs \<noteq> [])"

text \<open>The exceptions the client's code can meet.\<close>

datatype py_exn =
    RequestException
  | HTTPError nat
  | JSONDecodeError
  | AttributeError
  | TypeError
  | KeyError
  | OSError

subsection \<open>\<^verbatim>\<open>str\<close> and \<^verbatim>\<open>repr\<close>\<close>

definition digit_char :: "nat \<Rightarrow> char" where
  "digit_char d = char_of (48 + d)"

function string_of_nat :: "nat \<Rightarrow> string" where
  "string_of_nat n =
     (if n < 10 then [digit_char n] else string_of_nat (n div 10) @ [digit_char (n mod 10)])"
  by pat_completeness auto
termination
  by (relation "measure id") auto

declare string_of_nat.simps [simp del]

definition string_of_int :: "int \<Rightarrow> string" where
  "string_of_int i = (if i < 0 then CHR ''-'' # string_of_nat (nat (- i)) else string_of_nat (nat i))"

definition hex_digit :: "nat \<Rightarrow> char" where
  "hex_digit d = (if d < 10 then char_of (48 + d) else char_of (87 + d))"

text \<open>
  \<^verbatim>\<open>repr\<close> of a string: single quotes, unless the text holds a single quote and no double
  quote; the quote character and the backslash are escaped, and so are the control
  characters.
\<close>

definition repr_quote :: "string \<Rightarrow> char" where
  "repr_quote s = (if CHR 0x27 \<in> set s \<and> CHR 0x22 \<notin> set s then CHR 0x22 else CHR 0x27)"

definition repr_char :: "char \<Rightarrow> char \<Rightarrow> string" where
  "repr_char q c =
     (if c = q \<or> c = CHR 0x5C then [CHR 0x5C, c]
      else if c = CHR 0x09 then [CHR 0x5C, CHR ''t'']
      else if c = CHR 0x0A then [CHR 0x5C, CHR ''n'']
      else if c = CHR 0x0D then [CHR 0x5C, CHR ''r'']
      else if (of_char c :: nat) < 32 \<or> (of_char c :: nat) = 127
        then [CHR 0x5C, CHR ''x'', hex_digit (of_char c div 16), hex_digit (of_char c mod 16)]
      else [c])"

definition repr_string :: "string \<Rightarrow> string" where
  "repr_string s = (let q = repr_quote s in q # concat (map (repr_char q) s) @ [q])"

fun join :: "string \<Rightarrow> string list \<Rightarrow> string" where
  "join sep [] = []"
| "join sep [x] = x"
| "join sep (x # y # ys) = x @ sep @ join sep (y # ys)"

fun py_repr :: "json \<Rightarrow> string"
  and repr_elems :: "json list \<Rightarrow> string list"
  and repr_items :: "(string \<times> json) list \<Rightarrow> string list" where
  "py_repr JNull = ''None''"
| "py_repr (JBool b) = (if b then ''True'' else ''False'')"
| "py_repr (JInt i) = string_of_int i"
| "py_repr (JStr s) = repr_string s"
| "py_repr (JArr xs) = ''['' @ join '', '' (repr_elems xs) @ '']''"
| "py_repr (JObj kvs) = ''{'' @ join '', '' (repr_items kvs) @ ''}''"
| "repr_elems [] = []"
| "repr_elems (x # xs) = py_repr x # repr_elems xs"
| "repr_items [] = []"
| "repr_items ((k, v) # kvs) = (repr_string k @ '': '' @ py_repr v) # repr_items kvs"

text \<open>\<^verbatim>\<open>str(val)\<close>: a string is itself, every other value is its \<^verbatim>\<open>repr\<close>.\<close>

definition py_str :: "json \<Rightarrow> string" where
  "py_str v = (case v of JStr s \<Rightarrow> s | _ \<Rightarrow> py_repr v)"

text \<open>
  \<^verbatim>\<open>d.get(key)\<close> and \<^verbatim>\<open>d.get(key, default)\<close>: only a dictionary has the method, so any
  other value raises \<^verbatim>\<open>AttributeError\<close>. An absent key gives the default, which is
  \<^verbatim>\<open>None\<close> when none is passed.
\<close>

definition py_get_default :: "json \<Rightarrow> string \<Rightarrow> json \<Rightarrow> py_exn + json" where
  "py_get_default d k dflt =
     (case d of
        JObj kvs \<Rightarrow> (case map_of kvs k of None \<Rightarrow> Inr dflt | Some v \<Rightarrow> Inr v)
      | _ \<Rightarrow> Inl AttributeError)"

definition py_get :: "json \<Rightarrow> string \<Rightarrow> py_exn + json" where
  "py_get d k = py_get_default d k JNull"

text \<open>
  \<^verbatim>\<open>d[key]\<close> with a string key: a dictionary without the key raises \<^verbatim>\<open>KeyError\<close>, a list,
  a string or a scalar raises \<^verbatim>\<open>TypeError\<close>.
\<close>

definition py_index :: "json \<Rightarrow> string \<Rightarrow> py_exn + json" where
  "py_index d k =
     (case d of
        JObj kvs \<Rightarrow> (case map_of kvs k of None \<Rightarrow> Inl KeyError | Some v \<Rightarrow> Inr v)
      | _ \<Rightarrow> Inl TypeError)"

section \<open>The world outside the client\<close>

subsection \<open>HTTP\<close>

text \<open>
  A call of \<^verbatim>\<open>requests.get\<close> or \<^verbatim>\<open>requests.post\<close> is the request it sends; the server
  and the network between are a function from the request to what comes back: a
  transport failure (no connection, a timeout), or a response with its status code and
  its body as \<^verbatim>\<open>.json()\<close> parses it (\<open>None\<close> for a body that is not JSON).
\<close>

record request =
  meth :: string
  url :: string
  headers :: "(string \<times> string) list"
  json_body :: "json option"
  params :: "(string \<times> string) list"
  timeout :: "nat option"

datatype http_outcome =
    Transport_Failure
  | Response nat "json option"

type_synonym network = "request \<Rightarrow> http_outcome"

text \<open>\<^verbatim>\<open>response.raise_for_status()\<close> raises for the status codes 400 to 599.\<close>

definition raise_for_status :: "nat \<Rightarrow> py_exn + unit" where
  "raise_for_status st = (if 400 \<le> st \<and> st < 600 then Inl (HTTPError st) else Inr ())"

text \<open>\<^verbatim>\<open>requests.get(...).json()\<close>: the call raises, or the parse of the body raises, or the body's value.\<close>

definition response_json :: "http_outcome \<Rightarrow> py_exn + json" where
  "response_json r =
     (case r of
        Transport_Failure \<Rightarrow> Inl RequestException
      | Response st None \<Rightarrow> Inl JSONDecodeError
      | Response st (Some d) \<Rightarrow> Inr d)"

subsection \<open>The process environment and the \<^verbatim>\<open>.env\<close> file\<close>

text \<open>
  The file \<^verbatim>\<open>.env\<close> of the working directory is absent, present but not readable, or a
  sequence of \<^verbatim>\<open>KEY=VALUE\<close> bindings. The text of the file (quotes, escapes) is the
  library's business: \<^verbatim>\<open>set_key\<close> stores a value under a key and \<^verbatim>\<open>load_dotenv\<close> reads
  the bindings back, a later binding of a key winning over an earlier one.
  \<open>disk\<close> lists the outcomes of the writes to the file system still to come, \<open>False\<close>
  for a write that fails; past the end of the list every write succeeds.
\<close>

datatype env_file =
    Missing
  | Unreadable
  | Content "(string \<times> string) list"

record world =
  environ :: "string \<rightharpoonup> string"
  dotenv :: env_file
  disk :: "bool list"

definition dotenv_values :: "(string \<times> string) list \<Rightarrow> (string \<rightharpoonup> string)" where
  "dotenv_values kvs = map_of (rev kvs)"

text \<open>The key-value contents of the credential store: what a reader of the file finds.\<close>

definition store :: "world \<Rightarrow> (string \<rightharpoonup> string)" where
  "store w = (case dotenv w of Content kvs \<Rightarrow> dotenv_values kvs | _ \<Rightarrow> Map.empty)"

text \<open>
  \<^verbatim>\<open>load_dotenv(path, override)\<close>: no file is no error; a binding of the file replaces a
  variable of the process only with \<^verbatim>\<open>override=True\<close>.
\<close>

definition load_dotenv :: "bool \<Rightarrow> world \<Rightarrow> (py_exn + unit) \<times> world" where
  "load_dotenv override w =
     (case dotenv w of
        Missing \<Rightarrow> (Inr (), w)
      | Unreadable \<Rightarrow> (Inl OSError, w)
      | Content kvs \<Rightarrow>
          (Inr (), w\<lparr>environ :=
             (if override then environ w ++ dotenv_values kvs
              else dotenv_values kvs ++ environ w)\<rparr>))"

definition disk_write :: "world \<Rightarrow> bool \<times> world" where
  "disk_write w = (case disk w of [] \<Rightarrow> (True, w) | b # bs \<Rightarrow> (b, w\<lparr>disk := bs\<rparr>))"

text \<open>
  \<^verbatim>\<open>set_key(path, key, value)\<close> rewrites the file: every binding of the key is replaced,
  and a key the file does not bind is appended. A write that fails leaves the file as
  it was and raises.
\<close>

definition put_key :: "string \<Rightarrow> string \<Rightarrow> (string \<times> string) list \<Rightarrow> (string \<times> string) list" where
  "put_key k v kvs =
     (if k \<in> set (map fst kvs)
      then map (\<lambda>(k', v'). if k' = k then (k, v) else (k', v')) kvs
      else kvs @ [(k, v)])"

definition rewrite_file :: "string \<Rightarrow> string \<Rightarrow> (string \<times> string) list \<Rightarrow> world \<Rightarrow> (py_exn + unit) \<times> world" where
  "rewrite_file k v kvs w =
     (case disk_write w of
        (False, w') \<Rightarrow> (Inl OSError, w')
      | (True, w') \<Rightarrow> (Inr (), w'\<lparr>dotenv := Content (put_key k v kvs)\<rparr>))"

definition set_key :: "string \<Rightarrow> string \<Rightarrow> world \<Rightarrow> (py_exn + unit) \<times> world" where
  "set_key k v w =
     (case dotenv w of
        Unreadable \<Rightarrow> (Inl OSError, w)
      | Missing \<Rightarrow> rewrite_file k v [] w
      | Content kvs \<Rightarrow> rewrite_file k v kvs w)"

section \<open>The client\<close>

definition base_url :: string where
  "base_url = ''https://www.moltbook.com/api/v1''"

record client =
  api_key :: "string option"
  agent_id :: "string option"
  name :: string

text \<open>
  The constructor: \<^verbatim>\<open>load_dotenv(self.env_path)\<close>, then the three \<^verbatim>\<open>os.getenv\<close> reads.
  \<^verbatim>\<open>os.getenv(key)\<close> is \<^verbatim>\<open>None\<close> for a variable that is not set.
\<close>

definition init :: "world \<Rightarrow> (py_exn + client) \<times> world" where
  "init w =
     (case load_dotenv False w of
        (Inl e, w') \<Rightarrow> (Inl e, w')
      | (Inr _, w') \<Rightarrow>
          (Inr \<lparr>api_key = environ w' ''MOLTBOOK_API_KEY'',
                agent_id = environ w' ''MOLTBOOK_ID'',
                name = (case environ w' ''MOLTBOOK_NAME'' of
                          None \<Rightarrow> ''Unknown Agent'' | Some n \<Rightarrow> n)\<rparr>, w'))"

text \<open>\<^verbatim>\<open>_get_headers\<close>: \<^verbatim>\<open>not self.api_key\<close> holds for \<^verbatim>\<open>None\<close> and for the empty string.\<close>

definition get_headers :: "client \<Rightarrow> (string \<times> string) list" where
  "get_headers c =
     (case api_key c of
        None \<Rightarrow> []
      | Some k \<Rightarrow>
          if k = [] then []
          else [(''Authorization'', ''Bearer '' @ k), (''Content-Type'', ''application/json'')])"

subsection \<open>The requests the methods send\<close>

definition register_request :: "string \<Rightarrow> string \<Rightarrow> request" where
  "register_request nm descr =
     \<lparr>meth = ''POST'', url = base_url @ ''/agents/register'', headers = [],
      json_body = Some (JObj [(''name'', JStr nm), (''description'', JStr descr)]),
      params = [], timeout = Some 15\<rparr>"

definition get_feed_request :: "client \<Rightarrow> request" where
  "get_feed_request c =
     \<lparr>meth = ''GET'', url = base_url @ ''/feed'', headers = get_headers c,
      json_body = None, params = [], timeout = None\<rparr>"

definition post_request :: "client \<Rightarrow> string \<Rightarrow> request" where
  "post_request c content =
     \<lparr>meth = ''POST'', url = base_url @ ''/posts'', headers = get_headers c,
      json_body = Some (JObj [(''content'', JStr content)]), params = [], timeout = None\<rparr>"

definition comment_request :: "client \<Rightarrow> json \<Rightarrow> string \<Rightarrow> request" where
  "comment_request c post_id content =
     \<lparr>meth = ''POST'', url = base_url @ ''/posts/'' @ py_str post_id @ ''/comments'',
      headers = get_headers c,
      json_body = Some (JObj [(''content'', JStr content)]), params = [], timeout = None\<rparr>"

definition vote_request :: "client \<Rightarrow> json \<Rightarrow> string \<Rightarrow> request" where
  "vote_request c post_id direction =
     \<lparr>meth = ''POST'', url = base_url @ ''/posts/'' @ py_str post_id @ ''/vote'',
      headers = get_headers c,
      json_body = Some (JObj [(''direction'', JStr direction)]), params = [], timeout = None\<rparr>"

definition create_submolt_request :: "client \<Rightarrow> string \<Rightarrow> string \<Rightarrow> request" where
  "create_submolt_request c nm descr =
     \<lparr>meth = ''POST'', url = base_url @ ''/submolts'', headers = get_headers c,
      json_body = Some (JObj [(''name'', JStr nm), (''description'', JStr descr)]),
      params = [], timeout = None\<rparr>"

definition subscribe_request :: "client \<Rightarrow> string \<Rightarrow> request" where
  "subscribe_request c submolt_id =
     \<lparr>meth = ''POST'', url = base_url @ ''/submolts/'' @ submolt_id @ ''/subscribe'',
      headers = get_headers c, json_body = None, params = [], timeout = None\<rparr>"

definition semantic_search_request :: "client \<Rightarrow> string \<Rightarrow> request" where
  "semantic_search_request c query =
     \<lparr>meth = ''GET'', url = base_url @ ''/search'', headers = get_headers c,
      json_body = None, params = [(''q'', query), (''type'', ''semantic'')], timeout = None\<rparr>"

subsection \<open>The API methods\<close>

text \<open>\<^verbatim>\<open>get_feed\<close>: the body of the \<^verbatim>\<open>try\<close>, and the bare \<^verbatim>\<open>except\<close> around it.\<close>

definition get_feed_try :: "network \<Rightarrow> client \<Rightarrow> py_exn + json" where
  "get_feed_try net c =
     (case response_json (net (get_feed_request c)) of
        Inl e \<Rightarrow> Inl e
      | Inr d \<Rightarrow> py_get_default d ''posts'' (JArr []))"

definition get_feed :: "network \<Rightarrow> client \<Rightarrow> py_exn + json" where
  "get_feed net c = (case get_feed_try net c of Inl e \<Rightarrow> Inr (JArr []) | Inr v \<Rightarrow> Inr v)"

definition post :: "network \<Rightarrow> client \<Rightarrow> string \<Rightarrow> py_exn + json" where
  "post net c content = response_json (net (post_request c content))"

definition comment :: "network \<Rightarrow> client \<Rightarrow> json \<Rightarrow> string \<Rightarrow> py_exn + json" where
  "comment net c post_id content = response_json (net (comment_request c post_id content))"

definition vote :: "network \<Rightarrow> client \<Rightarrow> json \<Rightarrow> string \<Rightarrow> py_exn + json" where
  "vote net c post_id direction = response_json (net (vote_request c post_id direction))"

definition create_submolt :: "network \<Rightarrow> client \<Rightarrow> string \<Rightarrow> string \<Rightarrow> py_exn + json" where
  "create_submolt net c nm descr = response_json (net (create_submolt_request c nm descr))"

definition subscribe :: "network \<Rightarrow> client \<Rightarrow> string \<Rightarrow> py_exn + json" where
  "subscribe net c submolt_id = response_json (net (subscribe_request c submolt_id))"

definition semantic_search :: "network \<Rightarrow> client \<Rightarrow> string \<Rightarrow> py_exn + json" where
  "semantic_search net c query = response_json (net (semantic_search_request c query))"

subsection \<open>Registration\<close>

text \<open>\<^verbatim>\<open>if not os.path.exists(self.env_path): open(self.env_path, 'w')\<close>.\<close>

definition ensure_env_file :: "world \<Rightarrow> (py_exn + unit) \<times> world" where
  "ensure_env_file w =
     (case dotenv w of
        Missing \<Rightarrow>
          (case disk_write w of
             (False, w') \<Rightarrow> (Inl OSError, w')
           | (True, w') \<Rightarrow> (Inr (), w'\<lparr>dotenv := Content []\<rparr>))
      | _ \<Rightarrow> (Inr (), w))"

text \<open>The dictionary \<^verbatim>\<open>mapping\<close>, in the order its items are written.\<close>

definition agent_mapping :: "json \<Rightarrow> py_exn + (string \<times> json) list" where
  "agent_mapping agent_data =
     (case py_get agent_data ''id'' of Inl e \<Rightarrow> Inl e | Inr v_id \<Rightarrow>
     (case py_get agent_data ''api_key'' of Inl e \<Rightarrow> Inl e | Inr v_key \<Rightarrow>
     (case py_get agent_data ''claim_url'' of Inl e \<Rightarrow> Inl e | Inr v_url \<Rightarrow>
     (case py_get agent_data ''verification_code'' of Inl e \<Rightarrow> Inl e | Inr v_code \<Rightarrow>
     (case py_get agent_data ''name'' of Inl e \<Rightarrow> Inl e | Inr v_name \<Rightarrow>
        Inr [(''MOLTBOOK_ID'', v_id),
             (''MOLTBOOK_API_KEY'', v_key),
             (''MOLTBOOK_CLAIM_URL'', v_url),
             (''MOLTBOOK_VERIFY_CODE'', v_code),
             (''MOLTBOOK_NAME'', v_name)])))))"

text \<open>\<^verbatim>\<open>for env_key, val in mapping.items(): if val: set_key(self.env_path, env_key, str(val))\<close>.\<close>

fun save_mapping :: "(string \<times> json) list \<Rightarrow> world \<Rightarrow> (py_exn + unit) \<times> world" where
  "save_mapping [] w = (Inr (), w)"
| "save_mapping ((env_key, val) # rest) w =
     (if truthy val
      then (case set_key env_key (py_str val) w of
              (Inl e, w') \<Rightarrow> (Inl e, w')
            | (Inr _, w') \<Rightarrow> save_mapping rest w')
      else save_mapping rest w)"

text \<open>
  The last two statements of the \<^verbatim>\<open>try\<close>: \<^verbatim>\<open>load_dotenv(self.env_path, override=True)\<close>
  and \<^verbatim>\<open>self.__init__()\<close>. An exception leaves the attributes of the client as they were.
\<close>

definition refresh :: "client \<Rightarrow> world \<Rightarrow> (py_exn + bool) \<times> client \<times> world" where
  "refresh c w =
     (case load_dotenv True w of
        (Inl e, w') \<Rightarrow> (Inl e, c, w')
      | (Inr _, w') \<Rightarrow>
          (case init w' of
             (Inl e, w'') \<Rightarrow> (Inl e, c, w'')
           | (Inr c', w'') \<Rightarrow> (Inr True, c', w'')))"

text \<open>The part of the \<^verbatim>\<open>try\<close> that follows \<^verbatim>\<open>if not agent_data: return False\<close>.\<close>

definition save_agent :: "json \<Rightarrow> client \<Rightarrow> world \<Rightarrow> (py_exn + bool) \<times> client \<times> world" where
  "save_agent agent_data c w =
     (case ensure_env_file w of
        (Inl e, w1) \<Rightarrow> (Inl e, c, w1)
      | (Inr _, w1) \<Rightarrow>
          (case agent_mapping agent_data of
             Inl e \<Rightarrow> (Inl e, c, w1)
           | Inr mapping \<Rightarrow>
               (case save_mapping mapping w1 of
                  (Inl e, w2) \<Rightarrow> (Inl e, c, w2)
                | (Inr _, w2) \<Rightarrow> refresh c w2)))"

text \<open>The body of the \<^verbatim>\<open>try\<close> in \<^verbatim>\<open>register\<close>: an exception, or the value returned.\<close>

definition register_try ::
  "network \<Rightarrow> string \<Rightarrow> string \<Rightarrow> client \<Rightarrow> world \<Rightarrow> (py_exn + bool) \<times> client \<times> world" where
  "register_try net nm descr c w =
     (case net (register_request nm descr) of
        Transport_Failure \<Rightarrow> (Inl RequestException, c, w)
      | Response st body \<Rightarrow>
          (case raise_for_status st of
             Inl e \<Rightarrow> (Inl e, c, w)
           | Inr _ \<Rightarrow>
               (case body of
                  None \<Rightarrow> (Inl JSONDecodeError, c, w)
                | Some data \<Rightarrow>
                    (case py_get_default data ''agent'' (JObj []) of
                       Inl e \<Rightarrow> (Inl e, c, w)
                     | Inr agent_data \<Rightarrow>
                         if \<not> truthy agent_data then (Inr False, c, w)
                         else save_agent agent_data c w))))"

text \<open>\<^verbatim>\<open>except Exception as e: ... return False\<close>.\<close>

definition register ::
  "network \<Rightarrow> string \<Rightarrow> string \<Rightarrow> client \<Rightarrow> world \<Rightarrow> bool \<times> client \<times> world" where
  "register net nm descr c w =
     (case register_try net nm descr c w of
        (Inl e, c', w') \<Rightarrow> (False, c', w')
      | (Inr b, c', w') \<Rightarrow> (b, c', w'))"

section \<open>The feed view of the menu\<close>

text \<open>\<^verbatim>\<open>sel.isdigit()\<close> and \<^verbatim>\<open>int(sel)\<close>, on ASCII text.\<close>

definition is_digit_char :: "char \<Rightarrow> bool" where
  "is_digit_char ch = (48 \<le> (of_char ch :: nat) \<and> (of_char ch :: nat) \<le> 57)"

definition isdigit :: "string \<Rightarrow> bool" where
  "isdigit s = (s \<noteq> [] \<and> list_all is_digit_char s)"

definition py_int :: "string \<Rightarrow> nat" where
  "py_int s = foldl (\<lambda>a ch. 10 * a + (of_char ch - 48)) 0 s"

definition lower_char :: "char \<Rightarrow> char" where
  "lower_char ch =
     (if 65 \<le> (of_char ch :: nat) \<and> (of_char ch :: nat) \<le> 90 then char_of (of_char ch + 32 :: nat)
      else ch)"

definition py_lower :: "string \<Rightarrow> string" where
  "py_lower s = map lower_char s"

text \<open>
  One line of the feed:
  \<^verbatim>\<open>author = p.get('author', {}).get('name', 'Unknown')\<close> and
  \<^verbatim>\<open>print(f"{i+1}. [{author}]: {p.get('content')}")\<close>.
\<close>

definition author_name :: "json \<Rightarrow> py_exn + json" where
  "author_name p =
     (case py_get_default p ''author'' (JObj []) of
        Inl e \<Rightarrow> Inl e
      | Inr a \<Rightarrow> py_get_default a ''name'' (JStr ''Unknown''))"

definition feed_line :: "nat \<Rightarrow> json \<Rightarrow> py_exn + string" where
  "feed_line i p =
     (case author_name p of
        Inl e \<Rightarrow> Inl e
      | Inr author \<Rightarrow>
          (case py_get p ''content'' of
             Inl e \<Rightarrow> Inl e
           | Inr content \<Rightarrow>
               Inr (string_of_nat (i + 1) @ ''. ['' @ py_str author @ '']: '' @ py_str content)))"

fun feed_lines :: "nat \<Rightarrow> json list \<Rightarrow> py_exn + string list" where
  "feed_lines i [] = Inr []"
| "feed_lines i (p # ps) =
     (case feed_line i p of
        Inl e \<Rightarrow> Inl e
      | Inr l \<Rightarrow> (case feed_lines (Suc i) ps of Inl e \<Rightarrow> Inl e | Inr ls \<Rightarrow> Inr (l # ls)))"

text \<open>\<^verbatim>\<open>for i, p in enumerate(posts[:10])\<close>: the lines the menu prints.\<close>

definition feed_view :: "json list \<Rightarrow> py_exn + string list" where
  "feed_view posts = feed_lines 0 (take 10 posts)"

text \<open>
  \<^verbatim>\<open>if sel.isdigit() and 0 < int(sel) <= len(posts): target = posts[int(sel)-1]\<close>.
\<close>

definition feed_target :: "string \<Rightarrow> json list \<Rightarrow> json option" where
  "feed_target sel posts =
     (if isdigit sel \<and> 0 < py_int sel \<and> py_int sel \<le> length posts
      then Some (posts ! (py_int sel - 1))
      else None)"

datatype feed_done = Reply_sent | Upvoted

text \<open>What follows the selection: the reply or the vote on the target, or nothing.\<close>

definition feed_action ::
  "network \<Rightarrow> client \<Rightarrow> json list \<Rightarrow> string \<Rightarrow> string \<Rightarrow> string \<Rightarrow> py_exn + feed_done option" where
  "feed_action net c posts sel action message =
     (case feed_target sel posts of
        None \<Rightarrow> Inr None
      | Some target \<Rightarrow>
          if py_lower action = ''r'' then
            (case py_index target ''id'' of
               Inl e \<Rightarrow> Inl e
             | Inr post_id \<Rightarrow>
                 (case comment net c post_id message of
                    Inl e \<Rightarrow> Inl e
                  | Inr _ \<Rightarrow> Inr (Some Reply_sent)))
          else if py_lower action = ''v'' then
            (case py_index target ''id'' of
               Inl e \<Rightarrow> Inl e
             | Inr post_id \<Rightarrow>
                 (case vote net c post_id ''up'' of
                    Inl e \<Rightarrow> Inl e
                  | Inr _ \<Rightarrow> Inr (Some Upvoted)))
          else Inr None)"

text \<open>The line of the menu banner that names the agent.\<close>

definition banner_line :: "client \<Rightarrow> string" where
  "banner_line c = ''  MOLTBOOK: '' @ name c"

section \<open>Properties\<close>

subsection \<open>Numerals and \<^verbatim>\<open>str\<close>\<close>

lemma string_of_nat_nonempty: "string_of_nat n \<noteq> []"
  by (subst string_of_nat.simps) simp

lemma of_char_digit_char: "d < 10 \<Longrightarrow> (of_char (digit_char d) :: nat) = 48 + d"
  by (simp add: digit_char_def)

lemma string_of_nat_digits: "list_all is_digit_char (string_of_nat n)"
proof (induction n rule: string_of_nat.induct)
  case (1 n)
  show ?case
  proof (cases "n < 10")
    case True
    then show ?thesis
      by (subst string_of_nat.simps) (simp add: is_digit_char_def of_char_digit_char)
  next
    case False
    have "n mod 10 < 10" by simp
    then have "is_digit_char (digit_char (n mod 10))"
      by (simp only: is_digit_char_def of_char_digit_char) simp
    with False 1 show ?thesis
      by (subst string_of_nat.simps) simp
  qed
qed






lemma py_int_snoc: "py_int (xs @ [ch]) = 10 * py_int xs + (of_char ch - 48)"
  by (simp add: py_int_def)

lemma py_int_string_of_nat: "py_int (string_of_nat n) = n"
proof (induction n rule: string_of_nat.induct)
  case (1 n)
  show ?case
  proof (cases "n < 10")
    case True
    then show ?thesis
      by (subst string_of_nat.simps) (simp add: py_int_def of_char_digit_char)
  next
    case False
    have "n mod 10 < 10" by simp
    then have d: "(of_char (digit_char (n mod 10)) :: nat) = 48 + n mod 10"
      by (rule of_char_digit_char)
    from False 1 have "py_int (string_of_nat (n div 10)) = n div 10" by simp
    with False d show ?thesis
      by (subst string_of_nat.simps) (simp add: py_int_snoc)
  qed
qed

lemma isdigit_string_of_nat: "isdigit (string_of_nat n)"
  by (simp add: isdigit_def string_of_nat_digits string_of_nat_nonempty)

subsection \<open>Request headers\<close>

text \<open>
  Claim C6. The headers of a client hold an \<open>Authorization\<close> entry exactly when the API
  key is present and not empty, and the entry is then \<open>Bearer\<close> followed by the key.
  With the key absent or empty there are no headers at all. Every method that talks to
  the API sends exactly these headers; the registration request sends none.
\<close>

theorem authorization_header_iff_api_key:
  "((''Authorization'' \<in> set (map fst (get_headers c))) = (\<exists>k. api_key c = Some k \<and> k \<noteq> []))
   \<and> (\<forall>k. api_key c = Some k \<and> k \<noteq> [] \<longrightarrow>
         map_of (get_headers c) ''Authorization'' = Some (''Bearer '' @ k))
   \<and> (api_key c = None \<or> api_key c = Some [] \<longrightarrow> get_headers c = [])
   \<and> headers (get_feed_request c) = get_headers c
   \<and> headers (post_request c content) = get_headers c
   \<and> headers (comment_request c post_id content) = get_headers c
   \<and> headers (vote_request c post_id direction) = get_headers c
   \<and> headers (create_submolt_request c nm descr) = get_headers c
   \<and> headers (subscribe_request c submolt_id) = get_headers c
   \<and> headers (semantic_search_request c query) = get_headers c
   \<and> headers (register_request nm descr) = []"
proof -
  have "(''Authorization'' \<in> set (map fst (get_headers c))) = (\<exists>k. api_key c = Some k \<and> k \<noteq> [])"
    by (cases "api_key c") (auto simp: get_headers_def)
  moreover have "\<forall>k. api_key c = Some k \<and> k \<noteq> [] \<longrightarrow>
      map_of (get_headers c) ''Authorization'' = Some (''Bearer '' @ k)"
    by (simp add: get_headers_def)
  moreover have "api_key c = None \<or> api_key c = Some [] \<longrightarrow> get_headers c = []"
    by (auto simp: get_headers_def)
  ultimately show ?thesis
    by (simp add: get_feed_request_def post_request_def comment_request_def vote_request_def
        create_submolt_request_def subscribe_request_def semantic_search_request_def
        register_request_def)
qed

theorem authorization_header_iff_api_key_witness:
  "map_of (get_headers \<lparr>api_key = Some ''k1'', agent_id = None, name = ''a''\<rparr>) ''Authorization''
     = Some ''Bearer k1''
   \<and> get_headers \<lparr>api_key = Some [], agent_id = None, name = ''a''\<rparr> = []
   \<and> get_headers \<lparr>api_key = None, agent_id = None, name = ''a''\<rparr> = []"
  using authorization_header_iff_api_key
          [of "\<lparr>api_key = Some ''k1'', agent_id = None, name = ''a''\<rparr>"]
        authorization_header_iff_api_key
          [of "\<lparr>api_key = Some [], agent_id = None, name = ''a''\<rparr>"]
        authorization_header_iff_api_key
          [of "\<lparr>api_key = None, agent_id = None, name = ''a''\<rparr>"]
  by simp

subsection \<open>The credential store\<close>

lemma map_of_replace_other:
  "k'' \<noteq> k \<Longrightarrow>
   map_of (map (\<lambda>(k', v'). if k' = k then (k, v) else (k', v')) xs) k'' = map_of xs k''"
  by (induction xs) (simp_all add: case_prod_beta)

lemma map_of_replace_same:
  "k \<in> set (map fst xs) \<Longrightarrow>
   map_of (map (\<lambda>(k', v'). if k' = k then (k, v) else (k', v')) xs) k = Some v"
  by (induction xs) (simp_all add: case_prod_beta, fastforce)

lemma map_of_replace:
  "map_of (map (\<lambda>(k', v'). if k' = k then (k, v) else (k', v')) xs) k'' =
     (if k'' = k \<and> k \<in> set (map fst xs) then Some v else map_of xs k'')"
proof (cases "k'' = k")
  case False
  then show ?thesis by (simp add: map_of_replace_other)
next
  case True
  show ?thesis
  proof (cases "k \<in> set (map fst xs)")
    case True
    with \<open>k'' = k\<close> show ?thesis by (simp only: map_of_replace_same if_True simp_thms)
  next
    case False
    then have "map (\<lambda>(k', v'). if k' = k then (k, v) else (k', v')) xs = xs"
      by (induction xs) auto
    with False \<open>k'' = k\<close> show ?thesis by simp
  qed
qed

lemma dotenv_values_Nil: "dotenv_values [] = Map.empty"
  by (simp add: dotenv_values_def)

lemma dotenv_values_put_key: "dotenv_values (put_key k v kvs) = (dotenv_values kvs)(k \<mapsto> v)"
proof (cases "k \<in> set (map fst kvs)")
  case True
  have "map_of (map (\<lambda>(k', v'). if k' = k then (k, v) else (k', v')) (rev kvs)) k'' =
        ((map_of (rev kvs))(k \<mapsto> v)) k''" for k''
    using True by (simp add: map_of_replace)
  then show ?thesis
    using True by (auto simp: dotenv_values_def put_key_def rev_map)
next
  case False
  then show ?thesis
    by (simp add: dotenv_values_def put_key_def)
qed

lemma set_key_Inr:
  assumes "set_key k v w = (Inr u, w')"
  shows "store w' = (store w)(k \<mapsto> v)" and "environ w' = environ w"
    and "dotenv w' \<noteq> Unreadable" and "dotenv w' \<noteq> Missing" and "set (disk w') \<subseteq> set (disk w)"
  using assms
  by (auto simp: set_key_def rewrite_file_def disk_write_def store_def dotenv_values_put_key
      dotenv_values_Nil
      split: env_file.splits list.splits bool.splits if_splits)


lemma set_key_succeeds:
  assumes "dotenv w \<noteq> Unreadable" and "False \<notin> set (disk w)"
  shows "\<exists>w'. set_key k v w = (Inr (), w')"
  using assms
  by (auto simp: set_key_def rewrite_file_def disk_write_def
      split: env_file.splits list.splits bool.splits)




lemma save_mapping_Unreadable: "dotenv w = Unreadable \<Longrightarrow> snd (save_mapping m w) = w"
  by (induction m arbitrary: w) (auto simp: set_key_def)

lemma save_mapping_succeeds:
  assumes "dotenv w \<noteq> Unreadable" and "False \<notin> set (disk w)"
  shows "\<exists>w'. save_mapping m w = (Inr (), w') \<and> dotenv w' \<noteq> Unreadable"
  using assms
proof (induction m arbitrary: w)
  case Nil
  then show ?case by simp
next
  case (Cons kv m)
  obtain k v where kv: "kv = (k, v)" by (cases kv)
  show ?case
  proof (cases "truthy v")
    case False
    with Cons kv show ?thesis by fastforce
  next
    case True
    from set_key_succeeds [OF Cons.prems] obtain w1 where s: "set_key k (py_str v) w = (Inr (), w1)"
      by blast
    from set_key_Inr(3,5) [OF s] Cons.prems have "dotenv w1 \<noteq> Unreadable" "False \<notin> set (disk w1)"
      by auto
    from Cons.IH [OF this] obtain w' where "save_mapping m w1 = (Inr (), w')"
      and "dotenv w' \<noteq> Unreadable" by blast
    then show ?thesis using kv True s by simp
  qed
qed



lemma refresh_succeeds:
  "dotenv w \<noteq> Unreadable \<Longrightarrow> \<exists>c' w'. refresh c w = (Inr True, c', w')"
  by (auto simp: refresh_def init_def load_dotenv_def split: env_file.splits)

subsection \<open>Registration\<close>




lemma ensure_env_file_cases:
  assumes "ensure_env_file w = (r, w1)"
  shows "store w1 = store w" and "environ w1 = environ w" and "set (disk w1) \<subseteq> set (disk w)"
    and "dotenv w \<noteq> Unreadable \<Longrightarrow> dotenv w1 \<noteq> Unreadable"
    and "dotenv w = Unreadable \<Longrightarrow> w1 = w"
    and "r = Inl e \<Longrightarrow> False \<in> set (disk w)"
  using assms
  by (auto simp: ensure_env_file_def disk_write_def store_def dotenv_values_Nil
      split: env_file.splits list.splits bool.splits)

text \<open>A failed attempt with no failing write leaves the store as it was.\<close>

lemma save_agent_fails:
  assumes "save_agent a c w = (r, c', w')" and "r \<noteq> Inr True" and "False \<notin> set (disk w)"
  shows "store w' = store w \<and> c' = c"
proof -
  obtain r1 w1 where e: "ensure_env_file w = (r1, w1)" by (cases "ensure_env_file w")
  note E = ensure_env_file_cases [OF e]
  show ?thesis
  proof (cases r1)
    case (Inl x)
    with E(6) assms(3) show ?thesis by simp
  next
    case (Inr u)
    show ?thesis
    proof (cases "agent_mapping a")
      case (Inl x)
      with assms(1) e Inr E(1) show ?thesis by (simp add: save_agent_def)
    next
      case m: (Inr m)
      obtain r2 w2 where s: "save_mapping m w1 = (r2, w2)" by (cases "save_mapping m w1")
      show ?thesis
      proof (cases "dotenv w1 = Unreadable")
        case True
        with s save_mapping_Unreadable [of w1 m] have w2: "w2 = w1" by simp
        show ?thesis
        proof (cases r2)
          case (Inl x)
          with assms(1) e Inr m s w2 E(1) show ?thesis by (simp add: save_agent_def)
        next
          case r2: (Inr u2)
          with assms(1) e Inr m s w2 have "refresh c w1 = (r, c', w')" by (simp add: save_agent_def)
          with True E(1) show ?thesis
            by (auto simp: refresh_def load_dotenv_def)
        qed
      next
        case False
        from E(3) assms(3) have "False \<notin> set (disk w1)" by auto
        from save_mapping_succeeds [OF False this, of m] s
        have r2: "r2 = Inr ()" and "dotenv w2 \<noteq> Unreadable" by auto
        from refresh_succeeds [OF this(2), of c] obtain c2 w3 where "refresh c w2 = (Inr True, c2, w3)"
          by blast
        with assms(1) e Inr m s r2 have "r = Inr True" by (simp add: save_agent_def)
        with assms(2) show ?thesis by simp
      qed
    qed
  qed
qed


text \<open>
  Claim C1. When the body of the registration response is an object with no \<open>agent\<close>
  entry, or with an \<open>agent\<close> entry that is empty (in Python's sense: \<^verbatim>\<open>{}\<close>, \<^verbatim>\<open>None\<close>, an
  empty string or list, zero, \<^verbatim>\<open>False\<close>), \<open>register\<close> returns \<open>False\<close> and leaves the
  client and the whole world as they were: the \<^verbatim>\<open>.env\<close> file is neither created nor
  written.
\<close>

theorem register_without_agent_data:
  assumes "net (register_request nm descr) = Response st (Some (JObj body))"
    and "map_of body ''agent'' = None \<or> (\<exists>a. map_of body ''agent'' = Some a \<and> \<not> truthy a)"
  shows "register net nm descr c w = (False, c, w)"
proof (cases "raise_for_status st")
  case (Inl e)
  with assms(1) show ?thesis by (simp add: register_def register_try_def)
next
  case (Inr u)
  from assms(2) obtain a where "py_get_default (JObj body) ''agent'' (JObj []) = Inr a" and "\<not> truthy a"
    by (auto simp: py_get_default_def)
  with assms(1) Inr show ?thesis by (simp add: register_def register_try_def)
qed

theorem register_without_agent_data_witness:
  "register (\<lambda>r. Response 200 (Some (JObj [(''error'', JStr ''name taken'')]))) ''bot'' ''a bot''
     \<lparr>api_key = None, agent_id = None, name = ''Unknown Agent''\<rparr>
     \<lparr>environ = Map.empty, dotenv = Missing, disk = []\<rparr>
   = (False, \<lparr>api_key = None, agent_id = None, name = ''Unknown Agent''\<rparr>,
      \<lparr>environ = Map.empty, dotenv = Missing, disk = []\<rparr>)
   \<and> register (\<lambda>r. Response 200 (Some (JObj [(''agent'', JObj [])]))) ''bot'' ''a bot''
     \<lparr>api_key = None, agent_id = None, name = ''Unknown Agent''\<rparr>
     \<lparr>environ = Map.empty, dotenv = Content [(''OTHER'', ''x'')], disk = []\<rparr>
   = (False, \<lparr>api_key = None, agent_id = None, name = ''Unknown Agent''\<rparr>,
      \<lparr>environ = Map.empty, dotenv = Content [(''OTHER'', ''x'')], disk = []\<rparr>)"
proof
  show "register (\<lambda>r. Response 200 (Some (JObj [(''error'', JStr ''name taken'')]))) ''bot'' ''a bot''
     \<lparr>api_key = None, agent_id = None, name = ''Unknown Agent''\<rparr>
     \<lparr>environ = Map.empty, dotenv = Missing, disk = []\<rparr>
   = (False, \<lparr>api_key = None, agent_id = None, name = ''Unknown Agent''\<rparr>,
      \<lparr>environ = Map.empty, dotenv = Missing, disk = []\<rparr>)"
    by (rule register_without_agent_data
          [where st = 200 and body = "[(''error'', JStr ''name taken'')]"]) simp_all
  show "register (\<lambda>r. Response 200 (Some (JObj [(''agent'', JObj [])]))) ''bot'' ''a bot''
     \<lparr>api_key = None, agent_id = None, name = ''Unknown Agent''\<rparr>
     \<lparr>environ = Map.empty, dotenv = Content [(''OTHER'', ''x'')], disk = []\<rparr>
   = (False, \<lparr>api_key = None, agent_id = None, name = ''Unknown Agent''\<rparr>,
      \<lparr>environ = Map.empty, dotenv = Content [(''OTHER'', ''x'')], disk = []\<rparr>)"
    by (rule register_without_agent_data
          [where st = 200 and body = "[(''agent'', JObj [])]"]) simp_all
qed

text \<open>
  Claim C7 as stated fails on a write failure partway through saving. The file is
  empty, the first write succeeds and the second fails: \<open>register\<close> returns \<open>False\<close>, and
  \<open>MOLTBOOK_ID\<close>, written before the failure, stays in the store.
\<close>

theorem register_partial_write_counterexample:
  "fst (register
      (\<lambda>r. Response 200 (Some (JObj [(''agent'',
              JObj [(''id'', JStr ''a1''), (''api_key'', JStr ''k1'')])])))
      ''bot'' ''a bot''
      \<lparr>api_key = None, agent_id = None, name = ''Unknown Agent''\<rparr>
      \<lparr>environ = Map.empty, dotenv = Content [], disk = [True, False]\<rparr>) = False
   \<and> store (snd (snd (register
      (\<lambda>r. Response 200 (Some (JObj [(''agent'',
              JObj [(''id'', JStr ''a1''), (''api_key'', JStr ''k1'')])])))
      ''bot'' ''a bot''
      \<lparr>api_key = None, agent_id = None, name = ''Unknown Agent''\<rparr>
      \<lparr>environ = Map.empty, dotenv = Content [], disk = [True, False]\<rparr>))) ''MOLTBOOK_ID''
     = Some ''a1''
   \<and> store \<lparr>environ = Map.empty, dotenv = Content [], disk = [True, False]\<rparr> ''MOLTBOOK_ID'' = None"
  by (simp add: register_def register_try_def raise_for_status_def py_get_default_def py_get_def
      save_agent_def ensure_env_file_def agent_mapping_def set_key_def rewrite_file_def
      disk_write_def put_key_def py_str_def store_def dotenv_values_def)

lemma register_False_keeps_store:
  assumes "register net nm descr c w = (False, c', w')" and "False \<notin> set (disk w)"
  shows "store w' = store w \<and> c' = c"
proof -
  obtain r where t: "register_try net nm descr c w = (r, c', w')" and r: "r \<noteq> Inr True"
    using assms(1) by (auto simp: register_def split: prod.splits sum.splits)
  show ?thesis
  proof (cases "\<exists>a. register_try net nm descr c w = save_agent a c w")
    case True
    then obtain a where "save_agent a c w = (r, c', w')" using t by auto
    from save_agent_fails [OF this r assms(2)] show ?thesis .
  next
    case False
    then have "snd (register_try net nm descr c w) = (c, w)"
      by (auto simp: register_try_def split: http_outcome.splits sum.splits option.splits if_splits)
    with t show ?thesis by simp
  qed
qed

text \<open>
  Claim C7, amended. \<open>register\<close> returns a Boolean. Whenever it returns \<open>False\<close> and no
  write to the file system fails during the call, the key-value contents of the store
  and the client's identity are as before the call. A transport failure, a status from
  400 to 599 and a body that is not JSON are such failures, and they leave the whole
  world untouched. (A failing write is left out: the keys written before it remain.)
\<close>

theorem register_failure_keeps_store:
  "(register net nm descr c w = (False, c', w') \<and> False \<notin> set (disk w) \<longrightarrow>
      store w' = store w \<and> c' = c)
   \<and> (net (register_request nm descr) = Transport_Failure \<longrightarrow>
        register net nm descr c w = (False, c, w))
   \<and> (\<forall>st body. net (register_request nm descr) = Response st body \<and> 400 \<le> st \<and> st < 600 \<longrightarrow>
        register net nm descr c w = (False, c, w))
   \<and> (\<forall>st. net (register_request nm descr) = Response st None \<longrightarrow>
        register net nm descr c w = (False, c, w))"
proof -
  have "register net nm descr c w = (False, c', w') \<and> False \<notin> set (disk w) \<longrightarrow>
      store w' = store w \<and> c' = c"
    using register_False_keeps_store by blast
  moreover have "net (register_request nm descr) = Transport_Failure \<longrightarrow>
        register net nm descr c w = (False, c, w)"
    by (simp add: register_def register_try_def)
  moreover have "\<forall>st body. net (register_request nm descr) = Response st body \<and> 400 \<le> st \<and> st < 600 \<longrightarrow>
        register net nm descr c w = (False, c, w)"
    by (simp add: register_def register_try_def raise_for_status_def)
  moreover have "\<forall>st. net (register_request nm descr) = Response st None \<longrightarrow>
        register net nm descr c w = (False, c, w)"
    by (simp add: register_def register_try_def raise_for_status_def)
  ultimately show ?thesis by blast
qed

theorem register_failure_keeps_store_witness:
  "register (\<lambda>r. Response 200 (Some (JObj [(''agent'', JStr ''pending'')]))) ''bot'' ''a bot''
     \<lparr>api_key = None, agent_id = None, name = ''Unknown Agent''\<rparr>
     \<lparr>environ = Map.empty, dotenv = Missing, disk = []\<rparr>
   = (False, \<lparr>api_key = None, agent_id = None, name = ''Unknown Agent''\<rparr>,
      \<lparr>environ = Map.empty, dotenv = Content [], disk = []\<rparr>)
   \<and> store \<lparr>environ = Map.empty, dotenv = Content [], disk = []\<rparr>
     = store \<lparr>environ = Map.empty, dotenv = Missing, disk = []\<rparr>
   \<and> register (\<lambda>r. Response 503 None) ''bot'' ''a bot''
     \<lparr>api_key = None, agent_id = None, name = ''Unknown Agent''\<rparr>
     \<lparr>environ = Map.empty, dotenv = Content [(''MOLTBOOK_ID'', ''old'')], disk = []\<rparr>
   = (False, \<lparr>api_key = None, agent_id = None, name = ''Unknown Agent''\<rparr>,
      \<lparr>environ = Map.empty, dotenv = Content [(''MOLTBOOK_ID'', ''old'')], disk = []\<rparr>)"
proof -
  have run: "register (\<lambda>r. Response 200 (Some (JObj [(''agent'', JStr ''pending'')]))) ''bot'' ''a bot''
     \<lparr>api_key = None, agent_id = None, name = ''Unknown Agent''\<rparr>
     \<lparr>environ = Map.empty, dotenv = Missing, disk = []\<rparr>
   = (False, \<lparr>api_key = None, agent_id = None, name = ''Unknown Agent''\<rparr>,
      \<lparr>environ = Map.empty, dotenv = Content [], disk = []\<rparr>)"
    by (simp add: register_def register_try_def raise_for_status_def py_get_default_def py_get_def
        save_agent_def ensure_env_file_def agent_mapping_def disk_write_def)
  from run register_failure_keeps_store
    [of "\<lambda>r. Response 200 (Some (JObj [(''agent'', JStr ''pending'')]))" "''bot''" "''a bot''"
        "\<lparr>api_key = None, agent_id = None, name = ''Unknown Agent''\<rparr>"
        "\<lparr>environ = Map.empty, dotenv = Missing, disk = []\<rparr>"
        "\<lparr>api_key = None, agent_id = None, name = ''Unknown Agent''\<rparr>"
        "\<lparr>environ = Map.empty, dotenv = Content [], disk = []\<rparr>"]
  have "store \<lparr>environ = Map.empty, dotenv = Content [], disk = []\<rparr>
     = store \<lparr>environ = Map.empty, dotenv = Missing, disk = []\<rparr>"
    by simp
  moreover from register_failure_keeps_store
    [of "\<lambda>r. Response 503 None" "''bot''" "''a bot''"
        "\<lparr>api_key = None, agent_id = None, name = ''Unknown Agent''\<rparr>"
        "\<lparr>environ = Map.empty, dotenv = Content [(''MOLTBOOK_ID'', ''old'')], disk = []\<rparr>"]
  have "register (\<lambda>r. Response 503 None) ''bot'' ''a bot''
     \<lparr>api_key = None, agent_id = None, name = ''Unknown Agent''\<rparr>
     \<lparr>environ = Map.empty, dotenv = Content [(''MOLTBOOK_ID'', ''old'')], disk = []\<rparr>
   = (False, \<lparr>api_key = None, agent_id = None, name = ''Unknown Agent''\<rparr>,
      \<lparr>environ = Map.empty, dotenv = Content [(''MOLTBOOK_ID'', ''old'')], disk = []\<rparr>)"
    by simp
  ultimately show ?thesis using run by simp
qed








subsection \<open>The saved fields\<close>






subsection \<open>Reading the feed, searching, and loading the credentials\<close>

text \<open>
  Claim C4. \<open>get_feed\<close> never raises: it always returns a value. After a transport
  failure, after a body that is not JSON, after a JSON object without a \<open>posts\<close> entry
  and after a JSON body that is not an object, whatever the status code, the value is
  the empty list.
\<close>

theorem get_feed_never_raises:
  "(\<exists>v. get_feed net c = Inr v)
   \<and> (net (get_feed_request c) = Transport_Failure \<longrightarrow> get_feed net c = Inr (JArr []))
   \<and> (\<forall>st. net (get_feed_request c) = Response st None \<longrightarrow> get_feed net c = Inr (JArr []))
   \<and> (\<forall>st kvs. net (get_feed_request c) = Response st (Some (JObj kvs)) \<and> map_of kvs ''posts'' = None
         \<longrightarrow> get_feed net c = Inr (JArr []))
   \<and> (\<forall>st d. net (get_feed_request c) = Response st (Some d) \<and> (\<forall>kvs. d \<noteq> JObj kvs)
         \<longrightarrow> get_feed net c = Inr (JArr []))"
proof -
  have "\<exists>v. get_feed net c = Inr v"
    by (simp add: get_feed_def split: sum.splits)
  moreover have "net (get_feed_request c) = Transport_Failure \<longrightarrow> get_feed net c = Inr (JArr [])"
    by (simp add: get_feed_def get_feed_try_def response_json_def)
  moreover have "\<forall>st. net (get_feed_request c) = Response st None \<longrightarrow> get_feed net c = Inr (JArr [])"
    by (simp add: get_feed_def get_feed_try_def response_json_def)
  moreover have "\<forall>st kvs. net (get_feed_request c) = Response st (Some (JObj kvs)) \<and> map_of kvs ''posts'' = None
         \<longrightarrow> get_feed net c = Inr (JArr [])"
    by (simp add: get_feed_def get_feed_try_def response_json_def py_get_default_def)
  moreover have "get_feed net c = Inr (JArr [])"
    if "net (get_feed_request c) = Response st (Some d)" and "\<forall>kvs. d \<noteq> JObj kvs" for st d
    using that by (cases d) (simp_all add: get_feed_def get_feed_try_def response_json_def py_get_default_def)
  ultimately show ?thesis by blast
qed

theorem get_feed_never_raises_witness:
  "get_feed (\<lambda>r. Transport_Failure) \<lparr>api_key = Some ''k1'', agent_id = Some ''a1'', name = ''bot''\<rparr>
     = Inr (JArr [])
   \<and> get_feed (\<lambda>r. Response 200 None) \<lparr>api_key = Some ''k1'', agent_id = Some ''a1'', name = ''bot''\<rparr>
     = Inr (JArr [])
   \<and> get_feed (\<lambda>r. Response 401 (Some (JObj [(''error'', JStr ''unclaimed'')])))
       \<lparr>api_key = Some ''k1'', agent_id = Some ''a1'', name = ''bot''\<rparr>
     = Inr (JArr [])
   \<and> get_feed (\<lambda>r. Response 200 (Some (JArr [JInt 1])))
       \<lparr>api_key = Some ''k1'', agent_id = Some ''a1'', name = ''bot''\<rparr>
     = Inr (JArr [])"
  using get_feed_never_raises
          [of "\<lambda>r. Transport_Failure" "\<lparr>api_key = Some ''k1'', agent_id = Some ''a1'', name = ''bot''\<rparr>"]
        get_feed_never_raises
          [of "\<lambda>r. Response 200 None" "\<lparr>api_key = Some ''k1'', agent_id = Some ''a1'', name = ''bot''\<rparr>"]
        get_feed_never_raises
          [of "\<lambda>r. Response 401 (Some (JObj [(''error'', JStr ''unclaimed'')]))"
              "\<lparr>api_key = Some ''k1'', agent_id = Some ''a1'', name = ''bot''\<rparr>"]
        get_feed_never_raises
          [of "\<lambda>r. Response 200 (Some (JArr [JInt 1]))"
              "\<lparr>api_key = Some ''k1'', agent_id = Some ''a1'', name = ''bot''\<rparr>"]
  by simp

text \<open>
  Claim C3 as stated says that \<open>semantic_search\<close> turns every failure into an empty
  result. It has no \<^verbatim>\<open>try\<close>: a transport failure and an unparseable body reach the
  caller as exceptions.
\<close>

theorem semantic_search_raises_counterexample:
  "semantic_search (\<lambda>r. Transport_Failure)
      \<lparr>api_key = Some ''k1'', agent_id = Some ''a1'', name = ''bot''\<rparr> ''molting''
     = Inl RequestException
   \<and> semantic_search (\<lambda>r. Response 200 None)
      \<lparr>api_key = Some ''k1'', agent_id = Some ''a1'', name = ''bot''\<rparr> ''molting''
     = Inl JSONDecodeError"
  by (simp add: semantic_search_def response_json_def)

text \<open>
  Claim C3, amended. \<open>semantic_search\<close> propagates a failure to its caller: a transport
  failure raises the request exception, a body that is not JSON raises the decoding
  error. Any response with a JSON body, whatever its status code, is returned as parsed.
\<close>

theorem semantic_search_propagates:
  "(net (semantic_search_request c query) = Transport_Failure \<longrightarrow>
      semantic_search net c query = Inl RequestException)
   \<and> (\<forall>st. net (semantic_search_request c query) = Response st None \<longrightarrow>
        semantic_search net c query = Inl JSONDecodeError)
   \<and> (\<forall>st d. net (semantic_search_request c query) = Response st (Some d) \<longrightarrow>
        semantic_search net c query = Inr d)"
  by (simp add: semantic_search_def response_json_def)

theorem semantic_search_propagates_witness:
  "semantic_search (\<lambda>r. Transport_Failure)
      \<lparr>api_key = Some ''k1'', agent_id = Some ''a1'', name = ''bot''\<rparr> ''molting''
     = Inl RequestException
   \<and> semantic_search (\<lambda>r. Response 502 None)
      \<lparr>api_key = Some ''k1'', agent_id = Some ''a1'', name = ''bot''\<rparr> ''molting''
     = Inl JSONDecodeError
   \<and> semantic_search (\<lambda>r. Response 500 (Some (JObj [(''error'', JStr ''down'')])))
      \<lparr>api_key = Some ''k1'', agent_id = Some ''a1'', name = ''bot''\<rparr> ''molting''
     = Inr (JObj [(''error'', JStr ''down'')])"
  using semantic_search_propagates
          [of "\<lambda>r. Transport_Failure" "\<lparr>api_key = Some ''k1'', agent_id = Some ''a1'', name = ''bot''\<rparr>"
              "''molting''"]
        semantic_search_propagates
          [of "\<lambda>r. Response 502 None" "\<lparr>api_key = Some ''k1'', agent_id = Some ''a1'', name = ''bot''\<rparr>"
              "''molting''"]
        semantic_search_propagates
          [of "\<lambda>r. Response 500 (Some (JObj [(''error'', JStr ''down'')]))"
              "\<lparr>api_key = Some ''k1'', agent_id = Some ''a1'', name = ''bot''\<rparr>" "''molting''"]
  by simp

text \<open>
  Claim C8 as stated fails when the process environment sets \<open>MOLTBOOK_ID\<close> or
  \<open>MOLTBOOK_NAME\<close> but no API key: there is no file and no key, yet the identity has an
  agent id and a name that is not the default.
\<close>

theorem init_environment_counterexample:
  "dotenv \<lparr>environ = [''MOLTBOOK_ID'' \<mapsto> ''a1'', ''MOLTBOOK_NAME'' \<mapsto> ''Molty''],
           dotenv = Missing, disk = []\<rparr> = Missing
   \<and> environ \<lparr>environ = [''MOLTBOOK_ID'' \<mapsto> ''a1'', ''MOLTBOOK_NAME'' \<mapsto> ''Molty''],
           dotenv = Missing, disk = []\<rparr> ''MOLTBOOK_API_KEY'' = None
   \<and> fst (init \<lparr>environ = [''MOLTBOOK_ID'' \<mapsto> ''a1'', ''MOLTBOOK_NAME'' \<mapsto> ''Molty''],
           dotenv = Missing, disk = []\<rparr>)
     = Inr \<lparr>api_key = None, agent_id = Some ''a1'', name = ''Molty''\<rparr>"
  by (simp add: init_def load_dotenv_def)

text \<open>
  Claim C8, amended. With no credential file the constructor never raises and changes
  nothing outside the client; the three fields are read from the process environment.
  So the API key is absent when \<open>MOLTBOOK_API_KEY\<close> is not set, and the identity is the
  empty one (no key, no agent id, the default name) when none of \<open>MOLTBOOK_API_KEY\<close>,
  \<open>MOLTBOOK_ID\<close> and \<open>MOLTBOOK_NAME\<close> is set.
\<close>

theorem init_without_file:
  assumes "dotenv w = Missing"
  shows "init w =
           (Inr \<lparr>api_key = environ w ''MOLTBOOK_API_KEY'',
                 agent_id = environ w ''MOLTBOOK_ID'',
                 name = (case environ w ''MOLTBOOK_NAME'' of
                           None \<Rightarrow> ''Unknown Agent'' | Some n \<Rightarrow> n)\<rparr>, w)
         \<and> (environ w ''MOLTBOOK_API_KEY'' = None \<and> environ w ''MOLTBOOK_ID'' = None
              \<and> environ w ''MOLTBOOK_NAME'' = None \<longrightarrow>
            init w = (Inr \<lparr>api_key = None, agent_id = None, name = ''Unknown Agent''\<rparr>, w))"
  using assms by (simp add: init_def load_dotenv_def)

theorem init_without_file_witness:
  "init \<lparr>environ = Map.empty, dotenv = Missing, disk = []\<rparr>
     = (Inr \<lparr>api_key = None, agent_id = None, name = ''Unknown Agent''\<rparr>,
        \<lparr>environ = Map.empty, dotenv = Missing, disk = []\<rparr>)"
  using init_without_file [of "\<lparr>environ = Map.empty, dotenv = Missing, disk = []\<rparr>"]
  by simp

lemma init_Inr:
  assumes "init w = (Inr c, w')"
  shows "api_key c = environ w' ''MOLTBOOK_API_KEY''"
    and "agent_id c = environ w' ''MOLTBOOK_ID''"
    and "name c = (case environ w' ''MOLTBOOK_NAME'' of None \<Rightarrow> ''Unknown Agent'' | Some n \<Rightarrow> n)"
  using assms by (auto simp: init_def split: prod.splits sum.splits)

text \<open>
  Claim C9. When the environment the constructor reads (the process environment with
  the bindings of the file loaded into it) has no \<open>MOLTBOOK_NAME\<close>, the client's name is
  \<open>Unknown Agent\<close>, and so is the name in the menu banner. This is the case whenever
  neither the process environment nor the file binds \<open>MOLTBOOK_NAME\<close>, and the
  constructor then does return a client unless the file cannot be read.
\<close>

theorem default_display_name:
  "(\<forall>c w'. init w = (Inr c, w') \<and> environ w' ''MOLTBOOK_NAME'' = None \<longrightarrow>
       name c = ''Unknown Agent'' \<and> banner_line c = ''  MOLTBOOK: Unknown Agent'')
   \<and> (environ w ''MOLTBOOK_NAME'' = None \<and> store w ''MOLTBOOK_NAME'' = None
        \<and> dotenv w \<noteq> Unreadable \<longrightarrow>
       (\<exists>c w'. init w = (Inr c, w') \<and> environ w' ''MOLTBOOK_NAME'' = None
              \<and> name c = ''Unknown Agent''))"
proof (intro conjI allI impI)
  fix c w'
  assume "init w = (Inr c, w') \<and> environ w' ''MOLTBOOK_NAME'' = None"
  then have n: "name c = ''Unknown Agent''"
    by (auto dest: init_Inr)
  then show "name c = ''Unknown Agent''" .
  from n show "banner_line c = ''  MOLTBOOK: Unknown Agent''" by (simp add: banner_line_def)
next
  assume "environ w ''MOLTBOOK_NAME'' = None \<and> store w ''MOLTBOOK_NAME'' = None
        \<and> dotenv w \<noteq> Unreadable"
  then show "\<exists>c w'. init w = (Inr c, w') \<and> environ w' ''MOLTBOOK_NAME'' = None
              \<and> name c = ''Unknown Agent''"
    by (cases "dotenv w") (simp_all add: init_def load_dotenv_def store_def map_add_def)
qed

theorem default_display_name_witness:
  "fst (init \<lparr>environ = [''MOLTBOOK_API_KEY'' \<mapsto> ''k0''],
              dotenv = Content [(''MOLTBOOK_ID'', ''a1'')], disk = []\<rparr>)
     = Inr \<lparr>api_key = Some ''k0'', agent_id = Some ''a1'', name = ''Unknown Agent''\<rparr>
   \<and> banner_line \<lparr>api_key = Some ''k0'', agent_id = Some ''a1'', name = ''Unknown Agent''\<rparr>
     = ''  MOLTBOOK: Unknown Agent''"
proof -
  let ?w = "\<lparr>environ = [''MOLTBOOK_API_KEY'' \<mapsto> ''k0''],
              dotenv = Content [(''MOLTBOOK_ID'', ''a1'')], disk = []\<rparr>"
  let ?c = "\<lparr>api_key = Some ''k0'', agent_id = Some ''a1'', name = ''Unknown Agent''\<rparr>"
  have run: "fst (init ?w) = Inr ?c"
    by (simp add: init_def load_dotenv_def dotenv_values_def map_add_def)
  have env: "environ (snd (init ?w)) ''MOLTBOOK_NAME'' = None"
    by (simp add: init_def load_dotenv_def dotenv_values_def map_add_def)
  from run have "init ?w = (Inr ?c, snd (init ?w))" by (metis prod.collapse)
  with env default_display_name [of ?w, THEN conjunct1, rule_format, of ?c "snd (init ?w)"]
  have "banner_line ?c = ''  MOLTBOOK: Unknown Agent''" by blast
  with run show ?thesis by simp
qed

subsection \<open>The feed view\<close>

lemma feed_target_string_of_nat:
  "0 < i \<Longrightarrow> i \<le> length posts \<Longrightarrow> feed_target (string_of_nat i) posts = Some (posts ! (i - 1))"
  by (simp add: feed_target_def isdigit_string_of_nat py_int_string_of_nat)

lemma feed_lines_length: "feed_lines i ps = Inr ls \<Longrightarrow> length ls = length ps"
  by (induction ps arbitrary: i ls) (auto split: sum.splits)

lemma feed_lines_nth:
  "feed_lines i ps = Inr ls \<Longrightarrow> j < length ps \<Longrightarrow> feed_line (i + j) (ps ! j) = Inr (ls ! j)"
proof (induction ps arbitrary: i ls j)
  case Nil
  then show ?case by simp
next
  case (Cons p ps)
  from Cons.prems(1) obtain l ls' where l: "feed_line i p = Inr l"
    and r: "feed_lines (Suc i) ps = Inr ls'" and ls: "ls = l # ls'"
    by (auto split: sum.splits)
  show ?case
  proof (cases j)
    case 0
    with l ls show ?thesis by simp
  next
    case (Suc j')
    with Cons.prems(2) have "j' < length ps" by simp
    from Cons.IH [OF r this] Suc ls show ?thesis by simp
  qed
qed

text \<open>
  Claim C10. The feed view prints one line for each of the first ten posts, line
  \<open>j + 1\<close> for post \<open>j\<close>, so at most ten lines. The selection accepts exactly the digit
  strings whose value \<open>i\<close> has \<open>0 < i \<le> n\<close>, where \<open>n\<close> counts all the posts of the feed, and
  every such \<open>i\<close> can be entered (as its decimal numeral); the target is post \<open>i - 1\<close> of
  the full list, and the reply or the vote goes to that post's \<open>id\<close>. For \<open>10 < i \<le> n\<close>
  the position \<open>i - 1\<close> lies beyond the posts that were printed.
\<close>

theorem feed_selection_reaches_undisplayed_posts:
  "(\<forall>ls. feed_view posts = Inr ls \<longrightarrow>
       length ls = min 10 (length posts)
       \<and> (\<forall>j < length ls. feed_line j (posts ! j) = Inr (ls ! j)))
   \<and> (\<forall>sel. (feed_target sel posts \<noteq> None) =
               (isdigit sel \<and> 0 < py_int sel \<and> py_int sel \<le> length posts))
   \<and> (\<forall>i. 0 < i \<and> i \<le> length posts \<longrightarrow>
          feed_target (string_of_nat i) posts = Some (posts ! (i - 1)))
   \<and> (\<forall>i. 10 < i \<and> i \<le> length posts \<longrightarrow>
          feed_target (string_of_nat i) posts = Some (posts ! (i - 1))
          \<and> length (take 10 posts) \<le> i - 1)
   \<and> (\<forall>i post_id. 0 < i \<and> i \<le> length posts \<and> py_index (posts ! (i - 1)) ''id'' = Inr post_id \<longrightarrow>
          feed_action net c posts (string_of_nat i) ''v'' message =
            (case vote net c post_id ''up'' of Inl e \<Rightarrow> Inl e | Inr _ \<Rightarrow> Inr (Some Upvoted))
          \<and> feed_action net c posts (string_of_nat i) ''r'' message =
            (case comment net c post_id message of Inl e \<Rightarrow> Inl e | Inr _ \<Rightarrow> Inr (Some Reply_sent)))"
proof (intro conjI allI impI)
  fix ls
  assume v: "feed_view posts = Inr ls"
  then have len: "length ls = length (take 10 posts)"
    by (simp add: feed_view_def feed_lines_length)
  then show "length ls = min 10 (length posts)" by (simp add: min.commute)
  fix j
  assume "j < length ls"
  with len have "j < length (take 10 posts)" by simp
  from feed_lines_nth [OF v [unfolded feed_view_def] this] this
  show "feed_line j (posts ! j) = Inr (ls ! j)" by simp
next
  fix sel
  show "(feed_target sel posts \<noteq> None) =
               (isdigit sel \<and> 0 < py_int sel \<and> py_int sel \<le> length posts)"
    by (simp add: feed_target_def)
next
  fix i
  assume "0 < i \<and> i \<le> length posts"
  then show "feed_target (string_of_nat i) posts = Some (posts ! (i - 1))"
    by (simp add: feed_target_string_of_nat)
next
  fix i
  assume i: "10 < i \<and> i \<le> length posts"
  then show "feed_target (string_of_nat i) posts = Some (posts ! (i - 1))"
    by (simp add: feed_target_string_of_nat)
  from i have "10 \<le> i - 1" by arith
  moreover have "length (take 10 posts) \<le> 10" by simp
  ultimately show "length (take 10 posts) \<le> i - 1" by (rule order_trans [rotated])
next
  fix i post_id
  assume a: "0 < i \<and> i \<le> length posts \<and> py_index (posts ! (i - 1)) ''id'' = Inr post_id"
  then have t: "feed_target (string_of_nat i) posts = Some (posts ! (i - 1))"
    by (simp add: feed_target_string_of_nat)
  have lv: "py_lower ''v'' = ''v''" and lr: "py_lower ''r'' = ''r''"
    by (simp_all add: py_lower_def lower_char_def)
  from a t lv show "feed_action net c posts (string_of_nat i) ''v'' message =
            (case vote net c post_id ''up'' of Inl e \<Rightarrow> Inl e | Inr _ \<Rightarrow> Inr (Some Upvoted))"
    by (simp add: feed_action_def)
  from a t lr show "feed_action net c posts (string_of_nat i) ''r'' message =
            (case comment net c post_id message of Inl e \<Rightarrow> Inl e | Inr _ \<Rightarrow> Inr (Some Reply_sent))"
    by (simp add: feed_action_def)
qed

theorem feed_selection_reaches_undisplayed_posts_witness:
  "feed_target ''11'' (replicate 10 (JObj [(''id'', JInt 1)]) @ [JObj [(''id'', JInt 11)]])
     = Some (JObj [(''id'', JInt 11)])
   \<and> length (take 10 (replicate 10 (JObj [(''id'', JInt 1)]) @ [JObj [(''id'', JInt 11)]])) = 10
   \<and> url (vote_request \<lparr>api_key = Some ''k1'', agent_id = Some ''a1'', name = ''bot''\<rparr> (JInt 11) ''up'')
     = ''https://www.moltbook.com/api/v1/posts/11/vote''
   \<and> feed_action (\<lambda>r. Response 200 (Some (JObj [])))
        \<lparr>api_key = Some ''k1'', agent_id = Some ''a1'', name = ''bot''\<rparr>
        (replicate 10 (JObj [(''id'', JInt 1)]) @ [JObj [(''id'', JInt 11)]]) ''11'' ''v'' []
     = Inr (Some Upvoted)"
proof -
  let ?posts = "replicate 10 (JObj [(''id'', JInt 1)]) @ [JObj [(''id'', JInt 11)]]"
  let ?c = "\<lparr>api_key = Some ''k1'', agent_id = Some ''a1'', name = ''bot''\<rparr>"
  let ?net = "\<lambda>r::request. Response 200 (Some (JObj []))"
  have n11: "string_of_nat 11 = ''11''" by code_simp
  have nth: "?posts ! (11 - 1) = JObj [(''id'', JInt 11)]" by (simp add: nth_append)
  note T = feed_selection_reaches_undisplayed_posts [of ?posts ?net ?c "[]"]
  have "feed_target ''11'' ?posts = Some (JObj [(''id'', JInt 11)])"
    using T [THEN conjunct2, THEN conjunct2, THEN conjunct2, THEN conjunct1, rule_format, of 11]
      n11 nth by simp
  moreover have "length (take 10 ?posts) = 10" by simp
  moreover have "url (vote_request ?c (JInt 11) ''up'') = ''https://www.moltbook.com/api/v1/posts/11/vote''"
    by (simp add: vote_request_def base_url_def py_str_def string_of_int_def n11)
  moreover have "feed_action ?net ?c ?posts ''11'' ''v'' [] = Inr (Some Upvoted)"
    using T [THEN conjunct2, THEN conjunct2, THEN conjunct2, THEN conjunct2, rule_format,
             of 11 "JInt 11"] n11 nth
    by (simp add: py_index_def vote_def response_json_def)
  ultimately show ?thesis by blast
qed

end
